theory Spec2Isabelle
  imports Complex_Main "HOL-Library.Char_ord" "HOL-Library.List_Lexorder"
    "HOL-Library.Product_Lexorder" "HOL-Library.Sublist"
begin

section \<open>Data model: cells, rows, frames\<close>

text \<open>
  The script \<^verbatim>\<open>main.py\<close> works on pandas data frames. A frame is modelled by its list
  of column names and its list of rows; a row gives the cell under every column name
  (names outside \<open>columns\<close> are not part of the frame and are kept at \<open>NA\<close> by the
  operations below). A cell is a null (\<open>NaN\<close>, \<open>NaT\<close>, \<open><NA>\<close>), a number, a
  string, a timestamp (year, month, day, second of the day) or a boolean. A number is an
  exact rational, and the arithmetic of the aggregates is exact; the rounding of float64
  is modelled where \<^verbatim>\<open>pd.to_numeric\<close> converts the identifiers.
\<close>

datatype cell = NA | Num rat | Str string | Ts nat nat nat nat | Bool bool

type_synonym row = "string \<Rightarrow> cell"

record frame =
  columns :: "string list"
  rows :: "row list"

datatype exn = TypeError | KeyError

text \<open>\<^verbatim>\<open>df[c]\<close>: the cells of column \<open>c\<close>, top to bottom.\<close>

definition col :: "frame \<Rightarrow> string \<Rightarrow> cell list" where
  "col df c = map (\<lambda>r. r c) (rows df)"

text \<open>
  \<^verbatim>\<open>df[c] = vals\<close> and \<^verbatim>\<open>df.assign(c=vals)\<close>: an existing column is overwritten in
  place, a new one is appended on the right. Row count and row order stay.
\<close>

definition assign :: "frame \<Rightarrow> string \<Rightarrow> cell list \<Rightarrow> frame" where
  "assign df c vals =
     \<lparr>columns = (if c \<in> set (columns df) then columns df else columns df @ [c]),
      rows = map (\<lambda>(r, v). r(c := v)) (zip (rows df) vals)\<rparr>"

text \<open>\<^verbatim>\<open>df[cols]\<close>: projection on a list of column names.\<close>

definition select :: "frame \<Rightarrow> string list \<Rightarrow> frame" where
  "select df cols =
     \<lparr>columns = cols, rows = map (\<lambda>r c. if c \<in> set cols then r c else NA) (rows df)\<rparr>"

text \<open>\<^verbatim>\<open>pd.DataFrame(columns=cols)\<close>: the frame with a schema and no rows.\<close>

definition empty_frame :: "string list \<Rightarrow> frame" where
  "empty_frame cols = \<lparr>columns = cols, rows = []\<rparr>"

text \<open>A row written out as a list of named cells; every other name is null.\<close>

definition mk_row :: "(string \<times> cell) list \<Rightarrow> row" where
  "mk_row kvs c = (case map_of kvs c of None \<Rightarrow> NA | Some v \<Rightarrow> v)"

section \<open>Source loader\<close>

text \<open>
  The console is the list of lines printed so far. \<^verbatim>\<open>log\<close> prints one line with the
  fixed prefix.
\<close>

type_synonym console = "string list"

definition log :: "string \<Rightarrow> console \<Rightarrow> console" where
  "log msg out = out @ [''[Fitbit-EDA] '' @ msg]"

text \<open>
  \<^verbatim>\<open>read_csv_safe(path)\<close>. The file system maps a path to the content stored there,
  if any; \<^verbatim>\<open>pd.read_csv\<close> is the library's parser, a parameter here: it yields a frame
  or raises, and the text of the exception is what \<^verbatim>\<open>{e}\<close> prints. Every exception of
  the parser is caught by \<^verbatim>\<open>except Exception\<close>, so the function has no error result.
\<close>

definition read_csv_safe ::
  "(string \<Rightarrow> string + frame) \<Rightarrow> (string \<rightharpoonup> string) \<Rightarrow> string \<Rightarrow> console
     \<Rightarrow> frame option \<times> console" where
  "read_csv_safe pd_read_csv fs path out =
     (case fs path of
        None \<Rightarrow> (None, log (''Missing file: '' @ path) out)
      | Some content \<Rightarrow>
          (case pd_read_csv content of
             Inr df \<Rightarrow> (Some df, out)
           | Inl e \<Rightarrow> (None, log (''Failed to read '' @ path @ '': '' @ e) out)))"

section \<open>Identifier normalizer\<close>

subsection \<open>Decimal strings\<close>

definition is_digit :: "char \<Rightarrow> bool" where
  "is_digit c = (48 \<le> (of_char c :: nat) \<and> (of_char c :: nat) \<le> 57)"

definition digit_val :: "char \<Rightarrow> nat" where
  "digit_val c = of_char c - 48"

definition digit_char :: "nat \<Rightarrow> char" where
  "digit_char n = char_of (48 + n)"

definition digits_val :: "string \<Rightarrow> nat" where
  "digits_val ds = foldl (\<lambda>a c. 10 * a + digit_val c) 0 ds"

text \<open>Python's \<^verbatim>\<open>str\<close> of an integer.\<close>

function str_nat :: "nat \<Rightarrow> string" where
  "str_nat n = (if n < 10 then [digit_char n] else str_nat (n div 10) @ [digit_char (n mod 10)])"
  by pat_completeness auto
termination
  by (relation "measure id") auto

declare str_nat.simps [simp del]

definition str_int :: "int \<Rightarrow> string" where
  "str_int i = (if i < 0 then CHR ''-'' # str_nat (nat (- i)) else str_nat (nat i))"

subsection \<open>The float64 type\<close>

text \<open>
  A finite float64 is a rational \<open>m * 2\<^sup>e\<close> with an integer \<open>m\<close>, \<open>\<bar>m\<bar> < 2\<^sup>5\<^sup>3\<close> and
  \<open>-1074 \<le> e \<le> 971\<close>. Conversion to float64 rounds to the nearest such number, a tie going
  to the even \<open>m\<close>; a magnitude too large for the type becomes an infinity.
\<close>

definition round_even :: "rat \<Rightarrow> int" where
  "round_even t =
     (let f = \<lfloor>t\<rfloor>; r = t - of_int f in
      if r < 1 / 2 then f else if 1 / 2 < r then f + 1 else if even f then f else f + 1)"

text \<open>
  The binary exponent of a magnitude: \<open>up\<close> halves a magnitude of \<open>2\<^sup>5\<^sup>3\<close> or more,
  \<open>down\<close> doubles one below \<open>2\<^sup>5\<^sup>2\<close>, as far as the exponent range allows.
\<close>

function up :: "rat \<Rightarrow> int \<Rightarrow> rat \<times> int" where
  "up a e = (if 2 ^ 53 \<le> a \<and> e < 972 then up (a / 2) (e + 1) else (a, e))"
  by pat_completeness auto
termination
  by (relation "measure (\<lambda>(a, e). nat (972 - e))") auto

declare up.simps [simp del]

function down :: "rat \<Rightarrow> int \<Rightarrow> rat \<times> int" where
  "down a e = (if a < 2 ^ 52 \<and> - 1074 < e then down (a * 2) (e - 1) else (a, e))"
  by pat_completeness auto
termination
  by (relation "measure (\<lambda>(a, e). nat (e + 1074))") auto

declare down.simps [simp del]

definition pow2 :: "int \<Rightarrow> rat" where
  "pow2 e = (if 0 \<le> e then 2 ^ nat e else 1 / 2 ^ nat (- e))"

text \<open>The nearest float64 of a rational; \<open>None\<close> is an infinity.\<close>

definition to_double :: "rat \<Rightarrow> rat option" where
  "to_double q =
     (let (m, e) = (if 2 ^ 53 \<le> \<bar>q\<bar> then up \<bar>q\<bar> 0 else down \<bar>q\<bar> 0);
          r = round_even m
      in if 971 < e \<or> (e = 971 \<and> 2 ^ 53 \<le> r) then None
         else Some (sgn q * of_int r * pow2 e))"

subsection \<open>Numeric literals\<close>

text \<open>
  What a string denotes for \<^verbatim>\<open>pd.to_numeric\<close>: blanks, an optional sign, digits with an
  optional decimal point (at least one digit in all), an optional exponent, blanks. A
  literal with neither point nor exponent is an integer, read exactly; every other one is
  a float. The names of infinity, in either case and with an optional sign, denote an
  infinite float. The value of a float literal is given here exactly; its conversion to
  float64 is taken to be correctly rounded.
\<close>

datatype literal = IntLit int | FloatLit rat | InfLit

definition is_space :: "char \<Rightarrow> bool" where
  "is_space c = (c = CHR '' '' \<or> (9 \<le> (of_char c :: nat) \<and> (of_char c :: nat) \<le> 13))"

text \<open>Comparison with a lower-case word that ignores the case of the letters.\<close>

definition same_letter :: "char \<Rightarrow> char \<Rightarrow> bool" where
  "same_letter c p =
     (c = p \<or> (65 \<le> (of_char c :: nat) \<and> (of_char c :: nat) \<le> 90 \<and>
               (of_char c :: nat) + 32 = of_char p))"

definition is_inf :: "string \<Rightarrow> bool" where
  "is_inf s =
     list_ex (list_all2 same_letter s)
       [''inf'', ''+inf'', ''-inf'', ''infinity'', ''+infinity'', ''-infinity'']"

definition sign_of :: "string \<Rightarrow> bool \<times> string" where
  "sign_of s =
     (case s of
        [] \<Rightarrow> (False, [])
      | c # t \<Rightarrow> if c = CHR ''-'' then (True, t) else if c = CHR ''+'' then (False, t) else (False, s))"

definition pow10 :: "int \<Rightarrow> rat" where
  "pow10 k = (if 0 \<le> k then 10 ^ nat k else 1 / 10 ^ nat (- k))"

text \<open>
  The exponent part of a literal: whether there is one, its value, and the rest of the
  string. A letter \<^verbatim>\<open>e\<close> with no digit after it is not an exponent and is left in place.
\<close>

definition exponent_of :: "string \<Rightarrow> bool \<times> int \<times> string" where
  "exponent_of s =
     (case s of
        [] \<Rightarrow> (False, 0, [])
      | c # t \<Rightarrow>
          if c = CHR ''e'' \<or> c = CHR ''E'' then
            (let (neg, t1) = sign_of t; ds = takeWhile is_digit t1 in
             if ds = [] then (False, 0, s)
             else (True, (if neg then - int (digits_val ds) else int (digits_val ds)),
                   dropWhile is_digit t1))
          else (False, 0, s))"

definition parse_number :: "string \<Rightarrow> literal option" where
  "parse_number s =
     (let (neg, s1) = sign_of (dropWhile is_space s);
          ip = takeWhile is_digit s1;
          r1 = dropWhile is_digit s1;
          (dot, fp, r2) = (case r1 of
                             [] \<Rightarrow> (False, [], [])
                           | c # t \<Rightarrow> if c = CHR ''.''
                                      then (True, takeWhile is_digit t, dropWhile is_digit t)
                                      else (False, [], r1));
          (ex, k, r3) = exponent_of r2;
          m = int (digits_val (ip @ fp))
      in if ip @ fp = [] \<or> dropWhile is_space r3 \<noteq> []
         then (if is_inf s then Some InfLit else None)
         else if dot \<or> ex
         then Some (FloatLit ((if neg then - of_int m else of_int m) * pow10 (k - int (length fp))))
         else Some (IntLit (if neg then - m else m)))"

subsection \<open>The three conversions of \<^verbatim>\<open>norm_id\<close>\<close>

text \<open>
  What one element of a column denotes for \<^verbatim>\<open>pd.to_numeric\<close>: a number is itself, an
  integer when it has no fraction; a boolean is 1 or 0; a string is read as a literal. A
  null denotes nothing, nor does a string that is no literal (\<^verbatim>\<open>errors="coerce"\<close>). The
  \<^verbatim>\<open>Id\<close> column comes from the file as read and holds no timestamp; one would denote
  nothing here.
\<close>

definition cell_literal :: "cell \<Rightarrow> literal option" where
  "cell_literal c =
     (case c of
        Num q \<Rightarrow> Some (if of_int \<lfloor>q\<rfloor> = q then IntLit \<lfloor>q\<rfloor> else FloatLit q)
      | Bool b \<Rightarrow> Some (IntLit (if b then 1 else 0))
      | Str s \<Rightarrow> parse_number s
      | _ \<Rightarrow> None)"

text \<open>
  The result of \<^verbatim>\<open>pd.to_numeric\<close> is one array of one type. It is an array of float64 as
  soon as one element is a null, a float, or an integer outside the range of the 64-bit
  integer types; then every element is converted to float64, the integers too. Otherwise
  it is an array of integers, held exactly.
\<close>

datatype numv = Val rat | Infty | Null

definition float_column :: "literal option list \<Rightarrow> bool" where
  "float_column ls =
     list_ex (\<lambda>l. case l of
                     Some (IntLit i) \<Rightarrow> i < - (2 ^ 63) \<or> 2 ^ 64 \<le> i
                   | _ \<Rightarrow> True) ls"

definition as_float :: "rat \<Rightarrow> numv" where
  "as_float q = (case to_double q of None \<Rightarrow> Infty | Some v \<Rightarrow> Val v)"

definition to_numeric :: "cell list \<Rightarrow> numv list" where
  "to_numeric cs =
     (let ls = map cell_literal cs in
      if float_column ls
      then map (\<lambda>l. case l of
                       None \<Rightarrow> Null
                     | Some InfLit \<Rightarrow> Infty
                     | Some (IntLit i) \<Rightarrow> as_float (of_int i)
                     | Some (FloatLit q) \<Rightarrow> as_float q) ls
      else map (\<lambda>l. case l of Some (IntLit i) \<Rightarrow> Val (of_int i) | _ \<Rightarrow> Null) ls)"

text \<open>
  \<^verbatim>\<open>.astype("Int64")\<close> on the numeric array: the nullable integer type keeps nulls, and
  the cast raises \<^verbatim>\<open>TypeError\<close> when some value is not an integer of 64 bits ("cannot
  safely cast non-equivalent float64 to int64"), an infinity included.
\<close>

definition int64_of :: "numv \<Rightarrow> exn + int option" where
  "int64_of v =
     (case v of
        Val q \<Rightarrow>
          (if of_int \<lfloor>q\<rfloor> = q \<and> - (2 ^ 63) \<le> \<lfloor>q\<rfloor> \<and> \<lfloor>q\<rfloor> < 2 ^ 63
           then Inr (Some \<lfloor>q\<rfloor>) else Inl TypeError)
      | Infty \<Rightarrow> Inl TypeError
      | Null \<Rightarrow> Inr None)"

fun astype_Int64 :: "numv list \<Rightarrow> exn + int option list" where
  "astype_Int64 [] = Inr []"
| "astype_Int64 (v # vs) =
     (case int64_of v of
        Inl e \<Rightarrow> Inl e
      | Inr i \<Rightarrow> (case astype_Int64 vs of Inl e \<Rightarrow> Inl e | Inr is \<Rightarrow> Inr (i # is)))"

text \<open>\<^verbatim>\<open>.astype(str)\<close> on a nullable integer: the null prints as \<^verbatim>\<open><NA>\<close>.\<close>

definition astype_str :: "int option \<Rightarrow> cell" where
  "astype_str i = (case i of None \<Rightarrow> Str ''<NA>'' | Some n \<Rightarrow> Str (str_int n))"

text \<open>\<^verbatim>\<open>norm_id(df)\<close>; \<open>None\<close> is a source that was not loaded.\<close>

definition norm_id :: "frame option \<Rightarrow> exn + frame option" where
  "norm_id df =
     (case df of
        None \<Rightarrow> Inr None
      | Some d \<Rightarrow>
          if ''Id'' \<notin> set (columns d) then Inr (Some d)
          else (case astype_Int64 (to_numeric (col d ''Id'')) of
                  Inl e \<Rightarrow> Inl e
                | Inr ids \<Rightarrow> Inr (Some (assign d ''Id'' (map astype_str ids)))))"

text \<open>
  A canonical identifier, read off the string alone: the sentinel \<^verbatim>\<open><NA>\<close>, or the
  decimal form of a 64-bit integer with no sign but \<^verbatim>\<open>-\<close>, no leading zero and no
  negative zero.
\<close>

definition canonical_digits :: "string \<Rightarrow> bool" where
  "canonical_digits ds = (ds \<noteq> [] \<and> list_all is_digit ds \<and> (hd ds \<noteq> CHR ''0'' \<or> ds = ''0''))"



section \<open>Temporal normalizer\<close>

subsection \<open>The three formats of \<^verbatim>\<open>pd.to_datetime\<close>\<close>

text \<open>
  The script parses with three \<^verbatim>\<open>strptime\<close> formats: \<^verbatim>\<open>%m/%d/%Y\<close> for the daily
  table, \<^verbatim>\<open>%m/%d/%Y %I:%M:%S %p\<close> (12-hour clock) and \<^verbatim>\<open>%m/%d/%Y %H:%M:%S\<close>
  (24-hour clock). A numeric field takes the leading digits, at most its width; a blank in
  the format matches one or more blanks; the whole string has to be consumed. The bounds
  of the library's timestamp type (years 1677 to 2262) are not modelled.
\<close>

datatype fmt = F_mdY | F_mdY_IMS_p | F_mdY_HMS

definition num_field :: "nat \<Rightarrow> nat \<Rightarrow> nat \<Rightarrow> string \<Rightarrow> (nat \<times> string) option" where
  "num_field width lo hi s =
     (let ds = takeWhile is_digit (take width s) in
      if ds = [] \<or> digits_val ds < lo \<or> hi < digits_val ds then None
      else Some (digits_val ds, drop (length ds) s))"

text \<open>\<^verbatim>\<open>%Y\<close> is exactly four digits.\<close>

definition year_field :: "string \<Rightarrow> (nat \<times> string) option" where
  "year_field s =
     (let ds = takeWhile is_digit (take 4 s) in
      if length ds \<noteq> 4 then None else Some (digits_val ds, drop 4 s))"

definition lit :: "char \<Rightarrow> string \<Rightarrow> string option" where
  "lit c s = (case s of [] \<Rightarrow> None | x # t \<Rightarrow> if x = c then Some t else None)"

definition is_blank :: "char \<Rightarrow> bool" where
  "is_blank c = (c = CHR '' '' \<or> (9 \<le> (of_char c :: nat) \<and> (of_char c :: nat) \<le> 13))"

definition blanks :: "string \<Rightarrow> string option" where
  "blanks s = (if takeWhile is_blank s = [] then None else Some (dropWhile is_blank s))"

text \<open>\<^verbatim>\<open>%p\<close>: \<^verbatim>\<open>AM\<close> or \<^verbatim>\<open>PM\<close> in either case; the result says whether it is \<^verbatim>\<open>PM\<close>.\<close>

definition ampm :: "string \<Rightarrow> (bool \<times> string) option" where
  "ampm s =
     (if take 2 s \<in> {''AM'', ''am'', ''Am'', ''aM''} then Some (False, drop 2 s)
      else if take 2 s \<in> {''PM'', ''pm'', ''Pm'', ''pM''} then Some (True, drop 2 s)
      else None)"

definition leap_year :: "nat \<Rightarrow> bool" where
  "leap_year y = (y mod 4 = 0 \<and> (y mod 100 \<noteq> 0 \<or> y mod 400 = 0))"

definition days_in_month :: "nat \<Rightarrow> nat \<Rightarrow> nat" where
  "days_in_month y m =
     (if m = 2 then (if leap_year y then 29 else 28)
      else if m \<in> {4, 6, 9, 11} then 30 else 31)"

text \<open>The date part \<^verbatim>\<open>%m/%d/%Y\<close>, common to the three formats.\<close>

definition parse_mdY :: "string \<Rightarrow> ((nat \<times> nat \<times> nat) \<times> string) option" where
  "parse_mdY s =
     (case num_field 2 1 12 s of None \<Rightarrow> None | Some (m, s1) \<Rightarrow>
      case lit CHR ''/'' s1 of None \<Rightarrow> None | Some s2 \<Rightarrow>
      case num_field 2 1 31 s2 of None \<Rightarrow> None | Some (d, s3) \<Rightarrow>
      case lit CHR ''/'' s3 of None \<Rightarrow> None | Some s4 \<Rightarrow>
      case year_field s4 of None \<Rightarrow> None | Some (y, s5) \<Rightarrow>
      if 1 \<le> y \<and> d \<le> days_in_month y m then Some ((y, m, d), s5) else None)"

text \<open>The part \<^verbatim>\<open>hh:%M:%S\<close>, with the hour between \<open>lo\<close> and \<open>hi\<close>.\<close>

definition parse_hms :: "nat \<Rightarrow> nat \<Rightarrow> string \<Rightarrow> ((nat \<times> nat \<times> nat) \<times> string) option" where
  "parse_hms lo hi s =
     (case num_field 2 lo hi s of None \<Rightarrow> None | Some (h, s1) \<Rightarrow>
      case lit CHR '':'' s1 of None \<Rightarrow> None | Some s2 \<Rightarrow>
      case num_field 2 0 59 s2 of None \<Rightarrow> None | Some (mi, s3) \<Rightarrow>
      case lit CHR '':'' s3 of None \<Rightarrow> None | Some s4 \<Rightarrow>
      case num_field 2 0 59 s4 of None \<Rightarrow> None | Some (sec, s5) \<Rightarrow>
      Some ((h, mi, sec), s5))"

definition strptime :: "fmt \<Rightarrow> string \<Rightarrow> cell option" where
  "strptime f s =
     (case parse_mdY s of None \<Rightarrow> None | Some ((y, m, d), r) \<Rightarrow>
      (case f of
         F_mdY \<Rightarrow> if r = [] then Some (Ts y m d 0) else None
       | F_mdY_HMS \<Rightarrow>
           (case blanks r of None \<Rightarrow> None | Some r1 \<Rightarrow>
            case parse_hms 0 23 r1 of None \<Rightarrow> None | Some ((h, mi, sec), r2) \<Rightarrow>
            if r2 = [] then Some (Ts y m d (3600 * h + 60 * mi + sec)) else None)
       | F_mdY_IMS_p \<Rightarrow>
           (case blanks r of None \<Rightarrow> None | Some r1 \<Rightarrow>
            case parse_hms 1 12 r1 of None \<Rightarrow> None | Some ((h, mi, sec), r2) \<Rightarrow>
            case blanks r2 of None \<Rightarrow> None | Some r3 \<Rightarrow>
            case ampm r3 of None \<Rightarrow> None | Some (pm, r4) \<Rightarrow>
            if r4 = [] then
              Some (Ts y m d (3600 * (h mod 12 + (if pm then 12 else 0)) + 60 * mi + sec))
            else None)))"

text \<open>
  One cell under \<^verbatim>\<open>pd.to_datetime(..., format=f)\<close>: a null stays null, a timestamp stays,
  a string is parsed; \<open>None\<close> is a cell the format does not accept.
\<close>

definition to_datetime_cell :: "fmt \<Rightarrow> cell \<Rightarrow> cell option" where
  "to_datetime_cell f c =
     (case c of
        NA \<Rightarrow> Some NA
      | Ts y m d s \<Rightarrow> Some (Ts y m d s)
      | Str s \<Rightarrow> strptime f s
      | _ \<Rightarrow> None)"

text \<open>\<^verbatim>\<open>errors="coerce"\<close>: a cell that does not parse becomes null.\<close>

definition to_datetime_coerce :: "fmt \<Rightarrow> cell list \<Rightarrow> cell list" where
  "to_datetime_coerce f cs =
     map (\<lambda>c. case to_datetime_cell f c of None \<Rightarrow> NA | Some t \<Rightarrow> t) cs"

text \<open>\<^verbatim>\<open>errors="raise"\<close>: one cell that does not parse fails the whole column.\<close>

definition to_datetime_raise :: "fmt \<Rightarrow> cell list \<Rightarrow> cell list option" where
  "to_datetime_raise f cs =
     (if list_all (\<lambda>c. to_datetime_cell f c \<noteq> None) cs
      then Some (map (\<lambda>c. the (to_datetime_cell f c)) cs) else None)"

text \<open>\<^verbatim>\<open>.dt.normalize()\<close>: the timestamp at midnight of its day.\<close>

definition normalize :: "cell \<Rightarrow> cell" where
  "normalize c = (case c of Ts y m d s \<Rightarrow> Ts y m d 0 | _ \<Rightarrow> NA)"

subsection \<open>The four parsing blocks of the script\<close>

text \<open>Lines 64 to 66: the daily table, one format, coerced.\<close>

definition parse_daily :: "frame option \<Rightarrow> frame option" where
  "parse_daily daily =
     (case daily of
        None \<Rightarrow> None
      | Some d \<Rightarrow>
          if ''ActivityDate'' \<in> set (columns d) then
            (let d1 = assign d ''ActivityDate''
                        (to_datetime_coerce F_mdY (col d ''ActivityDate''))
             in Some (assign d1 ''date'' (map normalize (col d1 ''ActivityDate''))))
          else Some d)"

text \<open>Lines 68 to 70: the sleep table, the 12-hour format only, coerced.\<close>

definition parse_sleep :: "frame option \<Rightarrow> frame option" where
  "parse_sleep sleep =
     (case sleep of
        None \<Rightarrow> None
      | Some d \<Rightarrow>
          if ''SleepDay'' \<in> set (columns d) then
            (let d1 = assign d ''SleepDay''
                        (to_datetime_coerce F_mdY_IMS_p (col d ''SleepDay''))
             in Some (assign d1 ''date'' (map normalize (col d1 ''SleepDay''))))
          else Some d)"

text \<open>
  The \<^verbatim>\<open>try\<close>/\<^verbatim>\<open>except\<close> of the weight and heart-rate blocks: the 12-hour format on the
  whole column, and when that raises, the 24-hour format on the whole column, coerced.
\<close>

definition to_datetime_fallback :: "cell list \<Rightarrow> cell list" where
  "to_datetime_fallback cs =
     (case to_datetime_raise F_mdY_IMS_p cs of
        Some ts \<Rightarrow> ts
      | None \<Rightarrow> to_datetime_coerce F_mdY_HMS cs)"

text \<open>Lines 72 to 76: the weight table.\<close>

definition parse_weight :: "frame option \<Rightarrow> frame option" where
  "parse_weight weight =
     (case weight of
        None \<Rightarrow> None
      | Some d \<Rightarrow>
          if ''Date'' \<in> set (columns d)
          then Some (assign d ''Date'' (to_datetime_fallback (col d ''Date'')))
          else Some d)"

text \<open>Lines 78 to 87: the heart-rate table, with its two candidate time columns.\<close>

definition parse_heart :: "frame option \<Rightarrow> console \<Rightarrow> frame option \<times> console" where
  "parse_heart heart out =
     (case heart of
        None \<Rightarrow> (None, out)
      | Some d \<Rightarrow>
          (let time_col =
                 (if ''Time'' \<in> set (columns d) then Some ''Time''
                  else if ''ActivitySecond'' \<in> set (columns d) then Some ''ActivitySecond''
                  else None)
           in case time_col of
                Some tc \<Rightarrow>
                  (let d1 = assign d tc (to_datetime_fallback (col d tc))
                   in (Some (assign d1 ''date'' (map normalize (col d1 tc))), out))
              | None \<Rightarrow>
                  (Some d, log ''WARNING: Heart file missing Time/ActivitySecond column'' out)))"

section \<open>Deduplication\<close>

text \<open>
  The key of a row is its pair of cells under \<^verbatim>\<open>Id\<close> and \<^verbatim>\<open>date\<close>. Two keys are the same
  when the cells are; in particular the library counts two nulls as the same key, both in
  \<^verbatim>\<open>drop_duplicates\<close> and in \<^verbatim>\<open>merge\<close>.
\<close>

definition row_key :: "row \<Rightarrow> cell \<times> cell" where
  "row_key r = (r ''Id'', r ''date'')"

text \<open>
  The order of \<^verbatim>\<open>sort_values\<close> on one column: numbers by value, strings by code points,
  timestamps by time, nulls last (\<^verbatim>\<open>na_position="last"\<close>). By the time a table is sorted
  its \<^verbatim>\<open>Id\<close> column holds strings only and its \<^verbatim>\<open>date\<close> column timestamps or nulls, so
  the order between cells of different kinds, fixed here by the first component, is never
  consulted by the script.
\<close>

definition cell_key :: "cell \<Rightarrow> nat \<times> rat \<times> string \<times> nat \<times> nat \<times> nat \<times> nat" where
  "cell_key c =
     (case c of
        Num q \<Rightarrow> (0, q, [], 0, 0, 0, 0)
      | Str s \<Rightarrow> (1, 0, s, 0, 0, 0, 0)
      | Ts y m d s \<Rightarrow> (2, 0, [], y, m, d, s)
      | Bool b \<Rightarrow> (3, 0, [], (if b then 1 else 0), 0, 0, 0)
      | NA \<Rightarrow> (4, 0, [], 0, 0, 0, 0))"

definition sort_by :: "row \<Rightarrow> (nat \<times> rat \<times> string \<times> nat \<times> nat \<times> nat \<times> nat) \<times>
    (nat \<times> rat \<times> string \<times> nat \<times> nat \<times> nat \<times> nat)" where
  "sort_by r = (cell_key (r ''Id''), cell_key (r ''date''))"

text \<open>
  \<^verbatim>\<open>d.sort_values(["Id","date"])\<close>: with more than one sorting column the library sorts
  lexicographically and stably, ascending.
\<close>

definition sort_values :: "frame \<Rightarrow> frame" where
  "sort_values d = d\<lparr>rows := sort_key sort_by (rows d)\<rparr>"

text \<open>
  \<^verbatim>\<open>d.drop_duplicates(["Id","date"], keep="first")\<close>: going down the table, a row is kept
  when its key has not been seen above it.
\<close>

fun keep_first :: "('a \<Rightarrow> 'k) \<Rightarrow> 'k list \<Rightarrow> 'a list \<Rightarrow> 'a list" where
  "keep_first f seen [] = []"
| "keep_first f seen (x # xs) =
     (if f x \<in> set seen then keep_first f seen xs
      else x # keep_first f (f x # seen) xs)"

definition drop_duplicates :: "frame \<Rightarrow> frame" where
  "drop_duplicates d = d\<lparr>rows := keep_first row_key [] (rows d)\<rparr>"

text \<open>Lines 90 to 93, for one of the two tables of the loop.\<close>

definition dedupe :: "frame option \<Rightarrow> frame option" where
  "dedupe t =
     (case t of
        None \<Rightarrow> None
      | Some d \<Rightarrow>
          if ''Id'' \<in> set (columns d) \<and> ''date'' \<in> set (columns d)
          then Some (drop_duplicates (sort_values d))
          else Some d)"

section \<open>Heart-rate daily aggregate\<close>

text \<open>
  \<^verbatim>\<open>.round(1)\<close> on a number: the nearest multiple of one tenth, a tie going to the even
  multiple (the rule of \<^verbatim>\<open>numpy.round\<close>). It is stated on exact rationals.
\<close>

definition round1 :: "rat \<Rightarrow> rat" where
  "round1 q =
     (let t = q * 10; f = \<lfloor>t\<rfloor>; r = t - of_int f in
      (if r < 1 / 2 then of_int f
       else if 1 / 2 < r then of_int (f + 1)
       else if even f then of_int f else of_int (f + 1)) / 10)"

definition round_cell :: "cell \<Rightarrow> cell" where
  "round_cell c = (case c of Num q \<Rightarrow> Num (round1 q) | _ \<Rightarrow> c)"

text \<open>
  \<^verbatim>\<open>groupby(["Id","date"])\<close> drops the rows with a null in a key column
  (\<^verbatim>\<open>dropna=True\<close>) and orders the groups by key (\<^verbatim>\<open>sort=True\<close>).
\<close>

definition has_key :: "row \<Rightarrow> bool" where
  "has_key r = (r ''Id'' \<noteq> NA \<and> r ''date'' \<noteq> NA)"

definition numeric_cell :: "cell \<Rightarrow> bool" where
  "numeric_cell c = (case c of Num q \<Rightarrow> True | NA \<Rightarrow> True | _ \<Rightarrow> False)"

text \<open>The numbers of a column, nulls skipped.\<close>

definition nums :: "cell list \<Rightarrow> rat list" where
  "nums cs = concat (map (\<lambda>c. case c of Num q \<Rightarrow> [q] | _ \<Rightarrow> []) cs)"

definition key_order :: "cell \<times> cell \<Rightarrow> (nat \<times> rat \<times> string \<times> nat \<times> nat \<times> nat \<times> nat) \<times>
    (nat \<times> rat \<times> string \<times> nat \<times> nat \<times> nat \<times> nat)" where
  "key_order k = (cell_key (fst k), cell_key (snd k))"

text \<open>
  The row of one group under the four named aggregations: \<^verbatim>\<open>mean\<close>, \<^verbatim>\<open>max\<close> and \<^verbatim>\<open>min\<close>
  skip null values and are null for a group without a value; \<^verbatim>\<open>size\<close> counts the rows of
  the group.
\<close>

definition agg_row :: "row list \<Rightarrow> cell \<times> cell \<Rightarrow> row" where
  "agg_row rs k =
     (let g = filter (\<lambda>r. row_key r = k) rs;
          vs = nums (map (\<lambda>r. r ''Value'') g)
      in mk_row [(''Id'', fst k), (''date'', snd k),
                 (''AvgHR'', if vs = [] then NA else Num (sum_list vs / of_nat (length vs))),
                 (''MaxHR'', if vs = [] then NA else Num (Max (set vs))),
                 (''MinHR'', if vs = [] then NA else Num (Min (set vs))),
                 (''HRCount'', Num (of_nat (length g)))])"

text \<open>
  Lines 97 to 101. A value that is neither a number nor a null, in a row that belongs to a
  group, makes \<^verbatim>\<open>mean\<close> raise.
\<close>

definition groupby_agg :: "frame \<Rightarrow> exn + frame" where
  "groupby_agg h =
     (let g = filter has_key (rows h) in
      if \<not> list_all (\<lambda>r. numeric_cell (r ''Value'')) g then Inl TypeError
      else Inr \<lparr>columns = [''Id'', ''date'', ''AvgHR'', ''MaxHR'', ''MinHR'', ''HRCount''],
                rows = map (agg_row g) (sort_key key_order (remdups (map row_key g)))\<rparr>)"

text \<open>Line 102: the three statistics are rounded to one decimal place.\<close>

definition round_stats :: "row \<Rightarrow> row" where
  "round_stats r =
     r(''AvgHR'' := round_cell (r ''AvgHR''), ''MaxHR'' := round_cell (r ''MaxHR''),
       ''MinHR'' := round_cell (r ''MinHR''))"

text \<open>Lines 96 to 104.\<close>

definition hr_day :: "frame option \<Rightarrow> exn + frame" where
  "hr_day heart =
     (case heart of
        None \<Rightarrow> Inr (empty_frame [''Id'', ''date'', ''AvgHR'', ''MaxHR'', ''MinHR'', ''HRCount''])
      | Some h \<Rightarrow>
          if ''Value'' \<in> set (columns h) \<and> ''Id'' \<in> set (columns h) \<and> ''date'' \<in> set (columns h)
          then (case groupby_agg h of
                  Inl e \<Rightarrow> Inl e
                | Inr a \<Rightarrow> Inr (a\<lparr>rows := map round_stats (rows a)\<rparr>))
          else Inr (empty_frame [''Id'', ''date'', ''AvgHR'', ''MaxHR'', ''MinHR'', ''HRCount'']))"

section \<open>Joined analysis table\<close>

text \<open>\<^verbatim>\<open>safe_cols(df, cols)\<close>: the names of \<open>cols\<close> the table has, none for a missing table.\<close>

definition safe_cols :: "frame option \<Rightarrow> string list \<Rightarrow> string list" where
  "safe_cols t cols =
     filter (\<lambda>c. c \<in> set (case t of None \<Rightarrow> [] | Some d \<Rightarrow> columns d)) cols"

text \<open>
  \<^verbatim>\<open>l.merge(r, on=["Id","date"], how="left")\<close>. The library raises \<^verbatim>\<open>KeyError\<close> when a key
  column is missing on either side. Otherwise the rows of \<open>l\<close> are kept in their order;
  each one is paired with every row of \<open>r\<close> that has its key, in the order of \<open>r\<close>, and
  takes nulls under the columns of \<open>r\<close> when there is none. Keys are compared as cells,
  two nulls being the same key. The tables the script joins share no column but the keys,
  so the renaming of shared columns is not modelled. Neither is the library's check that
  the key columns of the two sides have compatible types: it refuses, for one, to join two
  tables without rows whose \<^verbatim>\<open>date\<close> columns differ in type, where the model returns the
  empty join.
\<close>

definition merge_left :: "frame \<Rightarrow> frame \<Rightarrow> exn + frame" where
  "merge_left l r =
     (if ''Id'' \<in> set (columns l) \<and> ''date'' \<in> set (columns l) \<and>
         ''Id'' \<in> set (columns r) \<and> ''date'' \<in> set (columns r)
      then
        (let extra = filter (\<lambda>c. c \<noteq> ''Id'' \<and> c \<noteq> ''date'') (columns r) in
         Inr \<lparr>columns = columns l @ extra,
              rows = concat (map (\<lambda>x.
                       case filter (\<lambda>y. row_key y = row_key x) (rows r) of
                         [] \<Rightarrow> [\<lambda>c. if c \<in> set extra then NA else x c]
                       | ys \<Rightarrow> map (\<lambda>y c. if c \<in> set extra then y c else x c) ys)
                     (rows l))\<rparr>)
      else Inl KeyError)"

definition keep :: "string list" where
  "keep = [''Id'', ''date'', ''TotalSteps'', ''Calories'', ''SedentaryMinutes'',
           ''VeryActiveMinutes'', ''LightlyActiveMinutes'']"

text \<open>Line 112: the columns of \<open>keep\<close> the activity table has, or an empty table.\<close>

definition base_df :: "frame option \<Rightarrow> frame" where
  "base_df daily =
     (case daily of
        Some d \<Rightarrow> select d (safe_cols daily keep)
      | None \<Rightarrow> empty_frame keep)"

text \<open>Lines 114 to 116: the two joins.\<close>

definition build_df :: "frame option \<Rightarrow> frame option \<Rightarrow> frame \<Rightarrow> exn + frame" where
  "build_df daily sleep hr =
     (case (case sleep of
              Some s \<Rightarrow>
                merge_left (base_df daily)
                  (select s (safe_cols sleep [''Id'', ''date'', ''TotalMinutesAsleep'']))
            | None \<Rightarrow> Inr (base_df daily)) of
        Inl e \<Rightarrow> Inl e
      | Inr df1 \<Rightarrow> merge_left df1 hr)"

section \<open>Quality filter\<close>

text \<open>
  Lines 120 to 122 pass the numeric columns of the joined table, \<^verbatim>\<open>Calories\<close> among them,
  through \<^verbatim>\<open>pd.to_numeric(errors="coerce")\<close>, so the quality filter finds numbers,
  booleans (which count as 1 and 0) and nulls there, and no string. \<open>coerced\<close> says so of
  a table; the median and the comparison with it are described for such tables.
\<close>

definition cell_num :: "cell \<Rightarrow> rat option" where
  "cell_num c =
     (case c of Num q \<Rightarrow> Some q | Bool b \<Rightarrow> Some (if b then 1 else 0) | _ \<Rightarrow> None)"


text \<open>The numbers of a column, nulls skipped.\<close>

definition numbers :: "cell list \<Rightarrow> rat list" where
  "numbers cs = concat (map (\<lambda>c. case cell_num c of Some q \<Rightarrow> [q] | None \<Rightarrow> []) cs)"

text \<open>
  \<^verbatim>\<open>Series.median(skipna=True)\<close>: the middle of the sorted non-null values, the mean of
  the two middle ones when their number is even, and undefined (\<^verbatim>\<open>NaN\<close>, here \<open>None\<close>)
  when there is no value.
\<close>

definition median :: "cell list \<Rightarrow> rat option" where
  "median cs =
     (let vs = sort (numbers cs); n = length vs in
      if n = 0 then None else Some ((vs ! ((n - 1) div 2) + vs ! (n div 2)) / 2))"

text \<open>Line 128.\<close>

definition cal_median :: "frame \<Rightarrow> rat option" where
  "cal_median d = (if ''Calories'' \<in> set (columns d) then median (col d ''Calories'') else None)"

text \<open>
  \<^verbatim>\<open>df.get(c, 0)\<close>: the column when the table has it, the default otherwise. The default is
  a scalar, which the comparison and \<^verbatim>\<open>&\<close> spread over the rows; here it is spread at once.
\<close>

definition df_get :: "frame \<Rightarrow> string \<Rightarrow> cell \<Rightarrow> cell list" where
  "df_get d c dflt = (if c \<in> set (columns d) then col d c else replicate (length (rows d)) dflt)"

text \<open>\<^verbatim>\<open>x == 0\<close> and \<^verbatim>\<open>x > cal_median\<close> on one cell: a comparison with a null is false.\<close>

definition eq_zero :: "cell \<Rightarrow> bool" where
  "eq_zero c = (cell_num c = Some 0)"

definition gt_median :: "cell \<Rightarrow> rat option \<Rightarrow> bool" where
  "gt_median c m = (case (cell_num c, m) of (Some q, Some v) \<Rightarrow> v < q | _ \<Rightarrow> False)"

text \<open>Line 129.\<close>

definition zero_step_high_cal :: "frame \<Rightarrow> bool list" where
  "zero_step_high_cal d =
     map (\<lambda>(s, c). eq_zero s \<and> gt_median c (cal_median d))
       (zip (df_get d ''TotalSteps'' (Num 0)) (df_get d ''Calories'' (Num 0)))"

definition not_cell :: "cell \<Rightarrow> cell" where
  "not_cell c = (case c of Bool b \<Rightarrow> Bool (\<not> b) | _ \<Rightarrow> NA)"

text \<open>Lines 129 and 130: the two new columns.\<close>

definition qc_flags :: "frame \<Rightarrow> frame" where
  "qc_flags d =
     (let d1 = assign d ''zero_step_high_cal'' (map Bool (zero_step_high_cal d))
      in assign d1 ''valid_row'' (map not_cell (col d1 ''zero_step_high_cal'')))"

text \<open>Line 131: \<^verbatim>\<open>df[df["valid_row"]]\<close>.\<close>

definition df_valid :: "frame \<Rightarrow> frame" where
  "df_valid d = d\<lparr>rows := filter (\<lambda>r. r ''valid_row'' = Bool True) (rows d)\<rparr>"

section \<open>The quality flag as the specification words it\<close>



section \<open>Example tables\<close>

text \<open>A parsed activity table with a repeated key: the second and third rows share it.\<close>

definition dup_table :: frame where
  "dup_table =
     \<lparr>columns = [''Id'', ''date'', ''TotalSteps''],
      rows = [mk_row [(''Id'', Str ''2''), (''date'', Ts 2016 4 12 0), (''TotalSteps'', Num 10)],
              mk_row [(''Id'', Str ''1''), (''date'', Ts 2016 4 12 0), (''TotalSteps'', Num 20)],
              mk_row [(''Id'', Str ''1''), (''date'', Ts 2016 4 12 0), (''TotalSteps'', Num 30)]]\<rparr>"

text \<open>
  A parsed heart-rate table: three samples of one subject on one day, one sample of another
  subject, and a sample without a day.
\<close>

definition heart_table :: frame where
  "heart_table =
     \<lparr>columns = [''Id'', ''Time'', ''Value'', ''date''],
      rows = [mk_row [(''Id'', Str ''1''), (''date'', Ts 2016 4 12 0), (''Value'', Num 60)],
              mk_row [(''Id'', Str ''2''), (''date'', Ts 2016 4 12 0), (''Value'', Num 90)],
              mk_row [(''Id'', Str ''1''), (''date'', Ts 2016 4 12 0), (''Value'', Num 61)],
              mk_row [(''Id'', Str ''1''), (''date'', NA), (''Value'', Num 70)],
              mk_row [(''Id'', Str ''1''), (''date'', Ts 2016 4 12 0), (''Value'', Num 61)]]\<rparr>"


text \<open>A joined table whose \<^verbatim>\<open>Calories\<close> are all null.\<close>

definition null_cal_table :: frame where
  "null_cal_table =
     \<lparr>columns = [''Id'', ''date'', ''TotalSteps'', ''Calories''],
      rows = [mk_row [(''Id'', Str ''1''), (''date'', Ts 2016 4 12 0), (''TotalSteps'', Num 0)],
              mk_row [(''Id'', Str ''1''), (''date'', Ts 2016 4 13 0), (''TotalSteps'', Num 7)]]\<rparr>"



text \<open>An activity table whose identifier is the number 1.5.\<close>

definition fraction_id_table :: frame where
  "fraction_id_table =
     \<lparr>columns = [''Id'', ''TotalSteps''],
      rows = [mk_row [(''Id'', Num (3 / 2)), (''TotalSteps'', Num 100)]]\<rparr>"

text \<open>
  A parsed sleep table: one night on a day of \<open>dup_table\<close>, one on a day that the activity
  table does not have.
\<close>

definition sleep_table :: frame where
  "sleep_table =
     \<lparr>columns = [''Id'', ''SleepDay'', ''TotalMinutesAsleep'', ''date''],
      rows = [mk_row [(''Id'', Str ''1''), (''date'', Ts 2016 4 12 0),
                      (''TotalMinutesAsleep'', Num 327)],
              mk_row [(''Id'', Str ''3''), (''date'', Ts 2016 4 13 0),
                      (''TotalMinutesAsleep'', Num 400)]]\<rparr>"

text \<open>A sleep file as loaded, without the \<^verbatim>\<open>SleepDay\<close> column.\<close>

definition sleep_no_day_table :: frame where
  "sleep_no_day_table =
     \<lparr>columns = [''Id'', ''TotalMinutesAsleep''],
      rows = [mk_row [(''Id'', Num 1503960366), (''TotalMinutesAsleep'', Num 327)]]\<rparr>"


section \<open>Properties of the identifier normalizer\<close>

lemma digits_val_snoc: "digits_val (ds @ [c]) = 10 * digits_val ds + digit_val c"
  by (simp add: digits_val_def)

lemma digit_char_props:
  assumes "n < 10"
  shows "is_digit (digit_char n)" "digit_val (digit_char n) = n"
  using assms by (simp_all add: is_digit_def digit_val_def digit_char_def)

lemma str_nat_nonempty: "str_nat n \<noteq> []"
  by (subst str_nat.simps) simp

lemma str_nat_digits: "list_all is_digit (str_nat n)"
proof (induction n rule: str_nat.induct)
  case (1 n)
  show ?case
  proof (cases "n < 10")
    case True
    then show ?thesis by (subst str_nat.simps) (simp add: digit_char_props)
  next
    case False
    with 1 show ?thesis by (subst str_nat.simps) (simp add: digit_char_props)
  qed
qed

lemma digits_val_str_nat: "digits_val (str_nat n) = n"
proof (induction n rule: str_nat.induct)
  case (1 n)
  show ?case
  proof (cases "n < 10")
    case True
    then show ?thesis by (subst str_nat.simps) (simp add: digits_val_def digit_char_props)
  next
    case False
    with 1 show ?thesis by (subst str_nat.simps) (simp add: digits_val_snoc digit_char_props)
  qed
qed

lemma char_of_48: "char_of (48::nat) = CHR ''0''"
  by code_simp







lemma canonical_str_nat: "canonical_digits (str_nat n)"
proof -
  have "hd (str_nat n) \<noteq> CHR ''0'' \<or> str_nat n = ''0''"
  proof (induction n rule: str_nat.induct)
    case (1 n)
    show ?case
    proof (cases "n < 10")
      case True
      then show ?thesis
        by (subst (1 2) str_nat.simps) (simp add: digit_char_def char_of_48)
    next
      case False
      then have "0 < n div 10" by simp
      then have "str_nat (n div 10) \<noteq> ''0''"
        using digits_val_str_nat [of "n div 10"] by (auto simp: digits_val_def digit_val_def)
      with 1 False have "hd (str_nat (n div 10)) \<noteq> CHR ''0''" by simp
      then show ?thesis using False str_nat_nonempty [of "n div 10"]
        by (subst (1) str_nat.simps) (simp)
    qed
  qed
  then show ?thesis by (simp add: canonical_digits_def str_nat_nonempty str_nat_digits)
qed

lemma astype_Int64_length: "astype_Int64 cs = Inr is \<Longrightarrow> length is = length cs"
  by (induction cs arbitrary: "is") (auto split: sum.splits)

lemma assign_same: "c \<in> set (columns d) \<Longrightarrow> assign d c (col d c) = d"
proof -
  have "map (\<lambda>(r, v). r(c := v)) (zip rs (map (\<lambda>r. r c) rs)) = rs" for rs :: "row list"
    by (induction rs) (auto simp: fun_eq_iff)
  then show "c \<in> set (columns d) \<Longrightarrow> assign d c (col d c) = d"
    by (simp add: assign_def col_def)
qed

lemma rows_assign:
  "length vals = length (rows d) \<Longrightarrow> i < length (rows d) \<Longrightarrow>
     rows (assign d c vals) ! i = (rows d ! i)(c := vals ! i)"
  by (simp add: assign_def)

lemma length_assign:
  "length vals = length (rows d) \<Longrightarrow> length (rows (assign d c vals)) = length (rows d)"
  by (simp add: assign_def)




lemma down_step: "a < 2 ^ 52 \<Longrightarrow> - 1074 < e \<Longrightarrow> down a e = down (a * 2) (e - 1)"
  by (subst down.simps) simp

lemma down_stop: "2 ^ 52 \<le> a \<Longrightarrow> down a e = (a, e)"
  by (subst down.simps) simp


lemma down_three_halves: "down (3 / 2) 0 = (6755399441055744, - 52)"
  by (simp add: down_step down_stop)

lemma to_double_three_halves: "to_double (3 / 2) = Some (3 / 2)"
  by (simp add: to_double_def down_three_halves round_even_def Let_def pow2_def)








lemma to_numeric_fraction: "to_numeric [Num (3 / 2)] = [Val (3 / 2)]"
proof -
  have "\<lfloor>3 / 2 :: rat\<rfloor> = 1" by (rule floor_unique) simp_all
  then show ?thesis
    by (simp add: to_numeric_def cell_literal_def float_column_def as_float_def
          to_double_three_halves)
qed



text \<open>
  Claim C9: for a table with an \<^verbatim>\<open>Id\<close> column the normalizer is to return a table with the
  same rows in the same order, only the identifiers changed. The script returns no table
  when an identifier is a number with a fraction: the cast to the nullable integer type at
  line 56 raises \<^verbatim>\<open>TypeError\<close>, although the conversion before it was asked to coerce
  what it cannot read.
\<close>

theorem norm_id_raises_on_fraction: "norm_id (Some fraction_id_table) = Inl TypeError"
proof -
  have c: "col fraction_id_table ''Id'' = [Num (3 / 2)]"
    "''Id'' \<in> set (columns fraction_id_table)"
    by (simp_all add: fraction_id_table_def col_def mk_row_def)
  have "\<lfloor>3 / 2 :: rat\<rfloor> = 1" by (rule floor_unique) simp_all
  then have "int64_of (Val (3 / 2)) = Inl TypeError"
    by (simp add: int64_of_def)
  then show ?thesis
    by (simp add: norm_id_def c to_numeric_fraction)
qed

section \<open>Properties of the source loader\<close>

lemma log_names: "\<exists>m. log (pre @ path @ post) out = out @ [m] \<and> sublist path m"
proof -
  have "sublist path ((''[Fitbit-EDA] '' @ pre) @ path @ post)" by (rule sublist_appendI)
  then show ?thesis by (simp add: log_def)
qed

text \<open>
  Claim C7. The loader returns a frame or the absent result and has no error result. It
  returns absent exactly when the path holds no file or the parser raises on the file's
  content; in both cases it prints one more line, and the line contains the path. When it
  returns a frame, the frame is the parser's and nothing is printed.
\<close>

theorem read_csv_safe_contract:
  "(fst (read_csv_safe rd fs p out) = None \<longleftrightarrow>
      fs p = None \<or> (\<exists>c e. fs p = Some c \<and> rd c = Inl e)) \<and>
   (fst (read_csv_safe rd fs p out) = None \<longrightarrow>
      (\<exists>m. snd (read_csv_safe rd fs p out) = out @ [m] \<and> sublist p m)) \<and>
   (\<forall>df. fst (read_csv_safe rd fs p out) = Some df \<longrightarrow>
      (\<exists>c. fs p = Some c \<and> rd c = Inr df) \<and> snd (read_csv_safe rd fs p out) = out)"
proof (cases "fs p")
  case None
  then have r: "read_csv_safe rd fs p out = (None, log (''Missing file: '' @ p @ []) out)"
    by (simp add: read_csv_safe_def)
  show ?thesis unfolding r using None log_names [of "''Missing file: ''" p "[]" out] by simp
next
  case (Some c)
  show ?thesis
  proof (cases "rd c")
    case (Inl e)
    with Some have r: "read_csv_safe rd fs p out =
        (None, log (''Failed to read '' @ p @ ('': '' @ e)) out)"
      by (simp add: read_csv_safe_def)
    show ?thesis unfolding r
      using Some Inl log_names [of "''Failed to read ''" p "'': '' @ e" out] by simp
  next
    case (Inr df)
    with Some have r: "read_csv_safe rd fs p out = (Some df, out)"
      by (simp add: read_csv_safe_def)
    show ?thesis unfolding r using Some Inr by simp
  qed
qed

text \<open>The contract at a file that exists and does not parse.\<close>

theorem read_csv_safe_contract_witness:
  "fst (read_csv_safe (\<lambda>c. Inl ''No columns to parse from file'')
          [''data_raw/sleepDay_merged.csv'' \<mapsto> ''''] ''data_raw/sleepDay_merged.csv'' []) = None \<and>
   (\<exists>m. snd (read_csv_safe (\<lambda>c. Inl ''No columns to parse from file'')
          [''data_raw/sleepDay_merged.csv'' \<mapsto> ''''] ''data_raw/sleepDay_merged.csv'' []) = [m] \<and>
        sublist ''data_raw/sleepDay_merged.csv'' m)"
proof -
  have h: "fst (read_csv_safe (\<lambda>c. Inl ''No columns to parse from file'')
          [''data_raw/sleepDay_merged.csv'' \<mapsto> ''''] ''data_raw/sleepDay_merged.csv'' []) = None"
    by (simp add: read_csv_safe_def)
  from read_csv_safe_contract [of "\<lambda>c. Inl ''No columns to parse from file''"
      "[''data_raw/sleepDay_merged.csv'' \<mapsto> '''']" "''data_raw/sleepDay_merged.csv''" "[]"] h
  show ?thesis by simp
qed

section \<open>Properties of the temporal normalizer\<close>

lemmas strptime_defs = strptime_def parse_mdY_def parse_hms_def num_field_def year_field_def
  lit_def blanks_def ampm_def is_blank_def is_digit_def digits_val_def digit_val_def
  days_in_month_def leap_year_def

lemma strptime_24h_string:
  "strptime F_mdY_IMS_p ''4/12/2016 13:30:00'' = None"
  "strptime F_mdY_HMS ''4/12/2016 13:30:00'' = Some (Ts 2016 4 12 48600)"
  by (simp_all add: strptime_defs)

text \<open>
  Claim C5: for a sleep table with a \<^verbatim>\<open>SleepDay\<close> column, a timestamp that the 12-hour
  format rejects is to be parsed with the 24-hour format, and only a timestamp failing both
  gets a null day. The script does not do this for the sleep table: lines 68 to 70 parse
  with the 12-hour format alone and coerce. The timestamp \<^verbatim>\<open>4/12/2016 13:30:00\<close> is accepted
  by the 24-hour format, yet the sleep row carrying it gets a null day, while the
  heart-rate block (lines 78 to 85), which has the fallback, gives the same timestamp the
  day 12 April 2016.
\<close>

theorem sleep_no_fallback:
  "strptime F_mdY_HMS ''4/12/2016 13:30:00'' = Some (Ts 2016 4 12 48600) \<and>
   map_option (\<lambda>d. col d ''date'')
     (parse_sleep (Some \<lparr>columns = [''Id'', ''SleepDay'', ''TotalMinutesAsleep''],
        rows = [mk_row [(''Id'', Str ''1503960366''), (''SleepDay'', Str ''4/12/2016 13:30:00''),
                        (''TotalMinutesAsleep'', Num 327)]]\<rparr>)) = Some [NA] \<and>
   map_option (\<lambda>d. col d ''date'')
     (fst (parse_heart (Some \<lparr>columns = [''Id'', ''Time'', ''Value''],
        rows = [mk_row [(''Id'', Str ''1503960366''), (''Time'', Str ''4/12/2016 13:30:00''),
                        (''Value'', Num 60)]]\<rparr>) [])) = Some [Ts 2016 4 12 0]"
  by (simp add: strptime_24h_string parse_sleep_def parse_heart_def assign_def col_def mk_row_def
        to_datetime_coerce_def to_datetime_fallback_def to_datetime_raise_def
        to_datetime_cell_def normalize_def)

section \<open>Properties of the deduplication\<close>

lemma cell_key_inj: "cell_key a = cell_key b \<longleftrightarrow> a = b"
  by (cases a; cases b) (auto simp: cell_key_def split: if_splits)

lemma sort_by_row_key: "sort_by x = sort_by y \<longleftrightarrow> row_key x = row_key y"
  by (simp add: sort_by_def row_key_def cell_key_inj)

lemma keep_first_keys:
  "set (map f (keep_first f seen xs)) = set (map f xs) - set seen"
  by (induction xs arbitrary: seen) auto

lemma keep_first_distinct: "distinct (map f (keep_first f seen xs))"
proof (induction xs arbitrary: seen)
  case Nil
  show ?case by simp
next
  case (Cons x xs)
  have "f x \<notin> set (map f (keep_first f (f x # seen) xs))"
    unfolding keep_first_keys by simp
  with Cons show ?case by simp
qed

lemma keep_first_subset: "set (keep_first f seen xs) \<subseteq> set xs"
  by (induction xs arbitrary: seen) auto

lemma keep_first_find:
  "r \<in> set (keep_first f seen xs) \<Longrightarrow> find (\<lambda>x. f x = f r) xs = Some r"
proof (induction xs arbitrary: seen)
  case Nil
  then show ?case by simp
next
  case (Cons x xs)
  show ?case
  proof (cases "f x \<in> set seen")
    case True
    with Cons.prems have r: "r \<in> set (keep_first f seen xs)" by simp
    then have "f r \<in> set (map f (keep_first f seen xs))" by simp
    then have "f r \<notin> set seen" unfolding keep_first_keys by simp
    with True have "f x \<noteq> f r" by auto
    with Cons.IH [OF r] show ?thesis by simp
  next
    case False
    with Cons.prems have "r = x \<or> r \<in> set (keep_first f (f x # seen) xs)" by simp
    then show ?thesis
    proof
      assume "r = x"
      then show ?thesis by simp
    next
      assume r: "r \<in> set (keep_first f (f x # seen) xs)"
      then have "f r \<in> set (map f (keep_first f (f x # seen) xs))" by simp
      then have "f r \<noteq> f x" unfolding keep_first_keys by auto
      with Cons.IH [OF r] show ?thesis by auto
    qed
  qed
qed

lemma find_filter:
  "find P xs = (case filter P xs of [] \<Rightarrow> None | x # _ \<Rightarrow> Some x)"
  by (induction xs) auto

lemma keep_first_sorted:
  "sorted (map g xs) \<Longrightarrow> sorted (map g (keep_first f seen xs))"
  by (induction xs arbitrary: seen) (auto dest: subsetD [OF keep_first_subset])

lemma distinct_key_once:
  "distinct (map f ys) \<Longrightarrow> k \<in> set (map f ys) \<Longrightarrow> length (filter (\<lambda>r. f r = k) ys) = 1"
proof (induction ys)
  case Nil
  then show ?case by simp
next
  case (Cons y ys)
  show ?case
  proof (cases "f y = k")
    case True
    with Cons.prems have "\<forall>r \<in> set ys. f r \<noteq> k" by (metis distinct.simps(2) imageI list.simps(9) set_map)
    then have "filter (\<lambda>r. f r = k) ys = []" by (simp add: filter_empty_conv)
    with True show ?thesis by simp
  next
    case False
    with Cons show ?thesis by auto
  qed
qed

lemma sort_values_stable:
  "filter (\<lambda>x. row_key x = k) (rows (sort_values d)) = filter (\<lambda>x. row_key x = k) (rows d)"
proof (cases "\<exists>y. row_key y = k")
  case True
  then obtain y where y: "row_key y = k" by blast
  have "(\<lambda>x. row_key x = k) = (\<lambda>x. sort_by x = sort_by y)"
    by (simp add: fun_eq_iff sort_by_row_key y)
  then show ?thesis by (simp add: sort_values_def sort_key_stable)
next
  case False
  then show ?thesis by simp
qed

lemma sort_values_sorted: "sorted (map sort_by (rows (sort_values d)))"
  by (simp add: sort_values_def)

lemma dedupe_keys_distinct:
  "distinct (map row_key (rows (drop_duplicates d)))"
  by (simp add: drop_duplicates_def keep_first_distinct)

lemma dedupe_keys_set:
  "set (map row_key (rows (drop_duplicates (sort_values d)))) = set (map row_key (rows d))"
proof -
  have "set (map row_key (rows (drop_duplicates (sort_values d))))
      = set (map row_key (sort_key sort_by (rows d)))"
    using keep_first_keys [of row_key "[]" "sort_key sort_by (rows d)"]
    by (simp add: drop_duplicates_def sort_values_def)
  then show ?thesis by simp
qed

lemma dup_table_columns: "columns dup_table = [''Id'', ''date'', ''TotalSteps'']"
  by (simp add: dup_table_def)

text \<open>
  Claim C3: for a table carrying \<^verbatim>\<open>Id\<close> and \<^verbatim>\<open>date\<close> columns, possibly with repeated keys,
  the deduplication step returns a table with the same columns and exactly one row for
  every key of the input, and no other row. The intermediate table is the input sorted
  ascending by key, stably (rows of one key keep their order); each row of the output
  is the first row of its key in that sorted table, hence also the first row of its key in
  the input. The output is itself in ascending key order.
\<close>

theorem dedupe_first_of_group:
  assumes "''Id'' \<in> set (columns d)" and "''date'' \<in> set (columns d)"
  shows "\<exists>out. dedupe (Some d) = Some out \<and> columns out = columns d \<and>
           (\<forall>k \<in> set (map row_key (rows d)).
              length (filter (\<lambda>r. row_key r = k) (rows out)) = 1) \<and>
           (\<forall>r \<in> set (rows out). row_key r \<in> set (map row_key (rows d))) \<and>
           sorted (map sort_by (rows (sort_values d))) \<and>
           (\<forall>k. filter (\<lambda>x. row_key x = k) (rows (sort_values d)) =
                filter (\<lambda>x. row_key x = k) (rows d)) \<and>
           (\<forall>r \<in> set (rows out).
              find (\<lambda>x. row_key x = row_key r) (rows (sort_values d)) = Some r \<and>
              find (\<lambda>x. row_key x = row_key r) (rows d) = Some r) \<and>
           sorted (map sort_by (rows out))"
proof -
  let ?s = "sort_values d"
  let ?o = "drop_duplicates ?s"
  have d: "dedupe (Some d) = Some ?o" using assms by (simp add: dedupe_def)
  have c: "columns ?o = columns d" by (simp add: drop_duplicates_def sort_values_def)
  have once: "\<forall>k \<in> set (map row_key (rows d)).
      length (filter (\<lambda>r. row_key r = k) (rows ?o)) = 1"
  proof
    fix k assume "k \<in> set (map row_key (rows d))"
    then have "k \<in> set (map row_key (rows ?o))" by (simp only: dedupe_keys_set)
    with dedupe_keys_distinct show "length (filter (\<lambda>r. row_key r = k) (rows ?o)) = 1"
      by (rule distinct_key_once)
  qed
  have only: "\<forall>r \<in> set (rows ?o). row_key r \<in> set (map row_key (rows d))"
  proof
    fix r assume "r \<in> set (rows ?o)"
    then have "row_key r \<in> set (map row_key (rows ?o))" by simp
    then show "row_key r \<in> set (map row_key (rows d))" by (simp only: dedupe_keys_set)
  qed
  have first: "\<forall>r \<in> set (rows ?o).
      find (\<lambda>x. row_key x = row_key r) (rows ?s) = Some r \<and>
      find (\<lambda>x. row_key x = row_key r) (rows d) = Some r"
  proof
    fix r assume "r \<in> set (rows ?o)"
    then have "r \<in> set (keep_first row_key [] (rows ?s))" by (simp add: drop_duplicates_def)
    then have f: "find (\<lambda>x. row_key x = row_key r) (rows ?s) = Some r" by (rule keep_first_find)
    then have "find (\<lambda>x. row_key x = row_key r) (rows d) = Some r"
      by (simp add: find_filter sort_values_stable)
    with f show "find (\<lambda>x. row_key x = row_key r) (rows ?s) = Some r \<and>
      find (\<lambda>x. row_key x = row_key r) (rows d) = Some r" by simp
  qed
  have so: "sorted (map sort_by (rows ?o))"
    unfolding drop_duplicates_def using sort_values_sorted [of d] by (simp add: keep_first_sorted)
  from d c once only first so sort_values_sorted [of d] sort_values_stable [of _ d]
  show ?thesis by blast
qed

theorem dedupe_first_of_group_witness:
  "''Id'' \<in> set (columns dup_table) \<and> ''date'' \<in> set (columns dup_table) \<and>
   (\<exists>out. dedupe (Some dup_table) = Some out \<and> columns out = columns dup_table \<and>
           (\<forall>k \<in> set (map row_key (rows dup_table)).
              length (filter (\<lambda>r. row_key r = k) (rows out)) = 1) \<and>
           (\<forall>r \<in> set (rows out). row_key r \<in> set (map row_key (rows dup_table))) \<and>
           sorted (map sort_by (rows (sort_values dup_table))) \<and>
           (\<forall>k. filter (\<lambda>x. row_key x = k) (rows (sort_values dup_table)) =
                filter (\<lambda>x. row_key x = k) (rows dup_table)) \<and>
           (\<forall>r \<in> set (rows out).
              find (\<lambda>x. row_key x = row_key r) (rows (sort_values dup_table)) = Some r \<and>
              find (\<lambda>x. row_key x = row_key r) (rows dup_table) = Some r) \<and>
           sorted (map sort_by (rows out)))"
  using dedupe_first_of_group [of dup_table] by (simp only: dup_table_columns) simp

section \<open>Properties of the heart-rate aggregate\<close>

lemma round1_cases:
  "round1 q = of_int (if q * 10 - of_int \<lfloor>q * 10\<rfloor> < 1 / 2 then \<lfloor>q * 10\<rfloor>
                      else if 1 / 2 < q * 10 - of_int \<lfloor>q * 10\<rfloor> then \<lfloor>q * 10\<rfloor> + 1
                      else if even \<lfloor>q * 10\<rfloor> then \<lfloor>q * 10\<rfloor> else \<lfloor>q * 10\<rfloor> + 1) / 10"
  by (simp add: round1_def Let_def)

lemma round1_tenths: "\<exists>n :: int. round1 q = of_int n / 10"
  unfolding round1_cases by (rule exI) (rule refl)

lemma round1_near: "\<bar>round1 q - q\<bar> \<le> 1 / 20"
proof -
  define f where "f = \<lfloor>q * 10\<rfloor>"
  define r where "r = q * 10 - of_int f"
  have r: "0 \<le> r" "r < 1" unfolding r_def f_def by linarith+
  have q: "q = (of_int f + r) / 10" by (simp add: r_def)
  have "round1 q = (if r < 1 / 2 then of_int f else of_int f + 1) / 10
      \<or> (r = 1 / 2 \<and> round1 q = of_int f / 10)"
    unfolding round1_cases f_def [symmetric] r_def [symmetric] by auto
  then show ?thesis
  proof
    assume "round1 q = (if r < 1 / 2 then of_int f else of_int f + 1) / 10"
    then show ?thesis using r by (auto simp: q abs_if field_simps)
  next
    assume "r = 1 / 2 \<and> round1 q = of_int f / 10"
    then show ?thesis by (simp add: q abs_if field_simps)
  qed
qed

lemma agg_row_cells:
  "agg_row rs k ''Id'' = fst k"
  "agg_row rs k ''date'' = snd k"
  "agg_row rs k ''HRCount'' = Num (of_nat (length (filter (\<lambda>r. row_key r = k) rs)))"
  by (simp_all add: agg_row_def mk_row_def Let_def)


lemma round_stats_cells:
  "round_stats r ''Id'' = r ''Id''"
  "round_stats r ''date'' = r ''date''"
  "round_stats r ''HRCount'' = r ''HRCount''"
  "round_stats r ''AvgHR'' = round_cell (r ''AvgHR'')"
  "round_stats r ''MaxHR'' = round_cell (r ''MaxHR'')"
  "round_stats r ''MinHR'' = round_cell (r ''MinHR'')"
  by (simp_all add: round_stats_def)

lemma row_key_agg: "row_key (round_stats (agg_row rs k)) = k"
  by (simp add: row_key_def round_stats_cells agg_row_cells)





lemma hr_day_rows:
  assumes "''Value'' \<in> set (columns h)" "''Id'' \<in> set (columns h)" "''date'' \<in> set (columns h)"
  shows "hr_day (Some h) =
     (if list_all (\<lambda>r. numeric_cell (r ''Value'')) (filter has_key (rows h))
      then Inr \<lparr>columns = [''Id'', ''date'', ''AvgHR'', ''MaxHR'', ''MinHR'', ''HRCount''],
                rows = map (\<lambda>k. round_stats (agg_row (filter has_key (rows h)) k))
                         (sort_key key_order (remdups (map row_key (filter has_key (rows h)))))\<rparr>
      else Inl TypeError)"
  using assms by (simp add: hr_day_def groupby_agg_def Let_def comp_def)




section \<open>Properties of the quality filter\<close>

lemma flags_rows:
  "length bs = length rs \<Longrightarrow>
   map (\<lambda>(r, v). r(''valid_row'' := v))
     (zip (map (\<lambda>(r, v). r(''zero_step_high_cal'' := v)) (zip rs (map Bool bs)))
          (map not_cell (map (\<lambda>r. r ''zero_step_high_cal'')
             (map (\<lambda>(r, v). r(''zero_step_high_cal'' := v)) (zip rs (map Bool bs)))))) =
   map (\<lambda>(r, b). r(''zero_step_high_cal'' := Bool b, ''valid_row'' := Bool (\<not> b))) (zip rs bs)"
  by (induction bs rs rule: list_induct2) (simp_all add: not_cell_def)

lemma length_df_get: "length (df_get d c v) = length (rows d)"
  by (simp add: df_get_def col_def)

lemma length_zero_step_high_cal: "length (zero_step_high_cal d) = length (rows d)"
  by (simp add: zero_step_high_cal_def length_df_get)

lemma rows_qc_flags:
  "rows (qc_flags d) =
   map (\<lambda>(r, b). r(''zero_step_high_cal'' := Bool b, ''valid_row'' := Bool (\<not> b)))
     (zip (rows d) (zero_step_high_cal d))"
  using flags_rows [OF length_zero_step_high_cal, of d]
  by (simp add: qc_flags_def Let_def assign_def col_def comp_def)

lemma nth_df_get:
  "i < length (rows d) \<Longrightarrow>
   df_get d c v ! i = (if c \<in> set (columns d) then (rows d ! i) c else v)"
  by (simp add: df_get_def col_def)

lemma nth_zero_step_high_cal:
  "i < length (rows d) \<Longrightarrow>
   zero_step_high_cal d ! i =
     (eq_zero (if ''TotalSteps'' \<in> set (columns d) then (rows d ! i) ''TotalSteps'' else Num 0) \<and>
      gt_median (if ''Calories'' \<in> set (columns d) then (rows d ! i) ''Calories'' else Num 0)
        (cal_median d))"
  by (simp add: zero_step_high_cal_def length_df_get nth_df_get)


lemma sort_Nil_iff: "sort xs = [] \<longleftrightarrow> xs = []"
  by (metis length_sort length_0_conv)

lemma median_None: "median cs = None \<longleftrightarrow> numbers cs = []"
  by (simp add: median_def Let_def sort_Nil_iff)

lemma numbers_all_NA: "list_all (\<lambda>c. c = NA) cs \<Longrightarrow> numbers cs = []"
  by (induction cs) (simp_all add: numbers_def cell_num_def)

lemma no_median_no_flag:
  "cal_median d = None \<Longrightarrow> zero_step_high_cal d = replicate (length (rows d)) False"
  by (rule nth_equalityI)
    (simp_all add: length_zero_step_high_cal nth_zero_step_high_cal gt_median_def
      split: option.splits)

lemma rows_qc_flags_no_flag:
  "zero_step_high_cal d = replicate (length (rows d)) False \<Longrightarrow>
   rows (qc_flags d) =
     map (\<lambda>r. r(''zero_step_high_cal'' := Bool False, ''valid_row'' := Bool True)) (rows d)"
  by (rule nth_equalityI) (simp_all add: rows_qc_flags)




lemma null_cal: "list_all (\<lambda>c. c = NA) (col null_cal_table ''Calories'')"
  by (simp add: null_cal_table_def col_def mk_row_def)






text \<open>
  Claim C10: when the joined table has no \<^verbatim>\<open>Calories\<close> column, or the column holds nulls
  only, the median is undefined and no row is flagged: \<^verbatim>\<open>zero_step_high_cal\<close> is false and
  \<^verbatim>\<open>valid_row\<close> true in every row, so the valid subset is the whole table.
\<close>

theorem undefined_median_flags_nothing:
  assumes "''Calories'' \<notin> set (columns d) \<or> list_all (\<lambda>c. c = NA) (col d ''Calories'')"
  shows "cal_median d = None \<and>
         (\<forall>r \<in> set (rows (qc_flags d)).
            r ''zero_step_high_cal'' = Bool False \<and> r ''valid_row'' = Bool True) \<and>
         length (rows (qc_flags d)) = length (rows d) \<and>
         df_valid (qc_flags d) = qc_flags d"
proof -
  from assms have m: "cal_median d = None"
    by (auto simp: cal_median_def median_None numbers_all_NA)
  then have r: "rows (qc_flags d) =
      map (\<lambda>r. r(''zero_step_high_cal'' := Bool False, ''valid_row'' := Bool True)) (rows d)"
    by (simp add: no_median_no_flag rows_qc_flags_no_flag)
  then have a: "\<forall>r \<in> set (rows (qc_flags d)).
      r ''zero_step_high_cal'' = Bool False \<and> r ''valid_row'' = Bool True"
    by auto
  then have "filter (\<lambda>r. r ''valid_row'' = Bool True) (rows (qc_flags d)) = rows (qc_flags d)"
    by (simp add: filter_id_conv)
  then have "df_valid (qc_flags d) = qc_flags d" by (simp add: df_valid_def)
  with m a r show ?thesis by simp
qed

theorem undefined_median_flags_nothing_witness:
  "list_all (\<lambda>c. c = NA) (col null_cal_table ''Calories'') \<and>
   cal_median null_cal_table = None \<and>
   list_all (\<lambda>r. r ''zero_step_high_cal'' = Bool False \<and> r ''valid_row'' = Bool True)
     (rows (qc_flags null_cal_table)) \<and>
   length (rows (qc_flags null_cal_table)) = length (rows null_cal_table) \<and>
   df_valid (qc_flags null_cal_table) = qc_flags null_cal_table"
  using undefined_median_flags_nothing [of null_cal_table] null_cal
  by (simp only: list_all_iff) blast

section \<open>Properties of the joined table\<close>

lemma filter_key_cases:
  "distinct (map f ys) \<Longrightarrow>
   filter (\<lambda>y. f y = k) ys = [] \<or> (\<exists>y. filter (\<lambda>y. f y = k) ys = [y])"
proof (induction ys)
  case Nil
  then show ?case by simp
next
  case (Cons y ys)
  show ?case
  proof (cases "f y = k")
    case True
    with Cons.prems have "\<forall>r \<in> set ys. f r \<noteq> k"
      by (metis distinct.simps(2) imageI list.simps(9) set_map)
    then have "filter (\<lambda>r. f r = k) ys = []" by (simp add: filter_empty_conv)
    with True show ?thesis by simp
  next
    case False
    with Cons show ?thesis by auto
  qed
qed

lemma row_key_merged:
  "''Id'' \<notin> set extra \<Longrightarrow> ''date'' \<notin> set extra \<Longrightarrow>
   row_key (\<lambda>c. if c \<in> set extra then y c else x c) = row_key x"
  by (simp add: row_key_def)

lemma merge_rows_keys:
  assumes "distinct (map row_key rs)" and "''Id'' \<notin> set extra" and "''date'' \<notin> set extra"
  shows "map row_key (concat (map (\<lambda>x.
           case filter (\<lambda>y. row_key y = row_key x) rs of
             [] \<Rightarrow> [\<lambda>c. if c \<in> set extra then NA else x c]
           | ys \<Rightarrow> map (\<lambda>y c. if c \<in> set extra then y c else x c) ys) ls)) =
         map row_key ls"
proof (induction ls)
  case Nil
  show ?case by simp
next
  case (Cons x ls)
  from filter_key_cases [OF assms(1), of "row_key x"]
  have "map row_key (case filter (\<lambda>y. row_key y = row_key x) rs of
             [] \<Rightarrow> [\<lambda>c. if c \<in> set extra then NA else x c]
           | ys \<Rightarrow> map (\<lambda>y c. if c \<in> set extra then y c else x c) ys) = [row_key x]"
    using row_key_merged [OF assms(2,3)] by auto
  with Cons show ?case by simp
qed

lemma merge_left_Inr:
  "(\<exists>out. merge_left l r = Inr out) \<longleftrightarrow>
   ''Id'' \<in> set (columns l) \<and> ''date'' \<in> set (columns l) \<and>
   ''Id'' \<in> set (columns r) \<and> ''date'' \<in> set (columns r)"
  by (simp add: merge_left_def Let_def)

lemma merge_left_Inl: "merge_left l r = Inl e \<Longrightarrow> e = KeyError"
  by (simp add: merge_left_def Let_def split: if_splits)

lemma merge_left_keys:
  assumes "merge_left l r = Inr out" and "distinct (map row_key (rows r))"
  shows "map row_key (rows out) = map row_key (rows l)"
    and "''Id'' \<in> set (columns out)" and "''date'' \<in> set (columns out)"
proof -
  let ?extra = "filter (\<lambda>c. c \<noteq> ''Id'' \<and> c \<noteq> ''date'') (columns r)"
  have e: "''Id'' \<notin> set ?extra" "''date'' \<notin> set ?extra" by simp_all
  from assms(1) have k: "''Id'' \<in> set (columns l)" "''date'' \<in> set (columns l)"
    and o: "out = \<lparr>columns = columns l @ ?extra,
              rows = concat (map (\<lambda>x.
                       case filter (\<lambda>y. row_key y = row_key x) (rows r) of
                         [] \<Rightarrow> [\<lambda>c. if c \<in> set ?extra then NA else x c]
                       | ys \<Rightarrow> map (\<lambda>y c. if c \<in> set ?extra then y c else x c) ys)
                     (rows l))\<rparr>"
    by (simp_all add: merge_left_def Let_def split: if_splits)
  show "map row_key (rows out) = map row_key (rows l)"
    unfolding o using merge_rows_keys [OF assms(2) e] by simp
  show "''Id'' \<in> set (columns out)" and "''date'' \<in> set (columns out)"
    unfolding o using k by simp_all
qed

lemma select_keys:
  "''Id'' \<in> set cs \<Longrightarrow> ''date'' \<in> set cs \<Longrightarrow>
   map row_key (rows (select d cs)) = map row_key (rows d)"
  by (simp add: select_def row_key_def)

lemma columns_select: "columns (select d cs) = cs"
  by (simp add: select_def)

lemma safe_cols_mem:
  "c \<in> set (safe_cols (Some d) cs) \<longleftrightarrow> c \<in> set cs \<and> c \<in> set (columns d)"
  by (auto simp: safe_cols_def)

lemma keep_keys: "''Id'' \<in> set keep" "''date'' \<in> set keep"
  by (simp_all add: keep_def)

lemma dedupe_Some:
  "\<exists>d'. dedupe (Some d) = Some d' \<and> columns d' = columns d \<and>
        (''Id'' \<in> set (columns d) \<and> ''date'' \<in> set (columns d) \<longrightarrow>
           distinct (map row_key (rows d')))"
proof (cases "''Id'' \<in> set (columns d) \<and> ''date'' \<in> set (columns d)")
  case True
  then have "dedupe (Some d) = Some (drop_duplicates (sort_values d))"
    by (simp add: dedupe_def)
  moreover have "columns (drop_duplicates (sort_values d)) = columns d"
    by (simp add: drop_duplicates_def sort_values_def)
  ultimately show ?thesis using dedupe_keys_distinct [of "sort_values d"] by simp
next
  case False
  then have "dedupe (Some d) = Some d" by (auto simp: dedupe_def)
  with False show ?thesis by blast
qed

lemma dedupe_None: "dedupe None = None"
  by (simp add: dedupe_def)

lemma hr_day_keys:
  assumes "hr_day heart = Inr hr"
  shows "''Id'' \<in> set (columns hr)" and "''date'' \<in> set (columns hr)"
    and "distinct (map row_key (rows hr))"
proof -
  let ?cs = "[''Id'', ''date'', ''AvgHR'', ''MaxHR'', ''MinHR'', ''HRCount'']"
  from assms have "hr = empty_frame ?cs \<or>
      (\<exists>rs. hr = \<lparr>columns = ?cs,
                  rows = map (\<lambda>k. round_stats (agg_row rs k))
                           (sort_key key_order (remdups (map row_key rs)))\<rparr>)"
    by (auto simp: hr_day_def groupby_agg_def Let_def comp_def
          split: option.splits if_splits sum.splits)
  then have c: "columns hr = ?cs" and d: "distinct (map row_key (rows hr))"
    by (auto simp: empty_frame_def comp_def row_key_agg)
  from c show "''Id'' \<in> set (columns hr)" and "''date'' \<in> set (columns hr)" by simp_all
  from d show "distinct (map row_key (rows hr))" .
qed


lemma base_df_props:
  "''Id'' \<in> set (columns (base_df daily)) \<longleftrightarrow>
     (\<forall>d. daily = Some d \<longrightarrow> ''Id'' \<in> set (columns d))"
  "''date'' \<in> set (columns (base_df daily)) \<longleftrightarrow>
     (\<forall>d. daily = Some d \<longrightarrow> ''date'' \<in> set (columns d))"
  "''Id'' \<in> set (columns (base_df daily)) \<Longrightarrow> ''date'' \<in> set (columns (base_df daily)) \<Longrightarrow>
     map row_key (rows (base_df daily)) =
       (case daily of None \<Rightarrow> [] | Some d \<Rightarrow> map row_key (rows d))"
  by (auto simp: base_df_def columns_select safe_cols_mem keep_keys empty_frame_def select_keys
        split: option.splits)

lemma build_df_keys:
  assumes hr: "''Id'' \<in> set (columns hr)" "''date'' \<in> set (columns hr)"
      "distinct (map row_key (rows hr))"
    and sl: "\<forall>s. sleep = Some s \<longrightarrow> ''Id'' \<in> set (columns s) \<longrightarrow> ''date'' \<in> set (columns s) \<longrightarrow>
               distinct (map row_key (rows s))"
  shows "(\<exists>df. build_df daily sleep hr = Inr df) \<longleftrightarrow>
           ''Id'' \<in> set (columns (base_df daily)) \<and> ''date'' \<in> set (columns (base_df daily)) \<and>
           (\<forall>s. sleep = Some s \<longrightarrow> ''Id'' \<in> set (columns s) \<and> ''date'' \<in> set (columns s))"
    and "build_df daily sleep hr = Inr df \<Longrightarrow>
           map row_key (rows df) = map row_key (rows (base_df daily))"
proof -
  let ?b = "base_df daily"
  show "(\<exists>df. build_df daily sleep hr = Inr df) \<longleftrightarrow>
           ''Id'' \<in> set (columns ?b) \<and> ''date'' \<in> set (columns ?b) \<and>
           (\<forall>s. sleep = Some s \<longrightarrow> ''Id'' \<in> set (columns s) \<and> ''date'' \<in> set (columns s))"
  proof (cases sleep)
    case None
    then show ?thesis using hr(1,2) by (simp add: build_df_def merge_left_Inr)
  next
    case (Some s)
    let ?r = "select s (safe_cols (Some s) [''Id'', ''date'', ''TotalMinutesAsleep''])"
    have r: "''Id'' \<in> set (columns ?r) \<longleftrightarrow> ''Id'' \<in> set (columns s)"
      "''date'' \<in> set (columns ?r) \<longleftrightarrow> ''date'' \<in> set (columns s)"
      by (simp_all add: columns_select safe_cols_mem)
    show ?thesis
    proof
      assume "\<exists>df. build_df daily sleep hr = Inr df"
      then obtain df1 where "merge_left ?b ?r = Inr df1"
        by (auto simp: build_df_def Some split: sum.splits)
      then have "\<exists>out. merge_left ?b ?r = Inr out" by blast
      then show "''Id'' \<in> set (columns ?b) \<and> ''date'' \<in> set (columns ?b) \<and>
          (\<forall>s. sleep = Some s \<longrightarrow> ''Id'' \<in> set (columns s) \<and> ''date'' \<in> set (columns s))"
        unfolding merge_left_Inr r using Some by simp
    next
      assume a: "''Id'' \<in> set (columns ?b) \<and> ''date'' \<in> set (columns ?b) \<and>
          (\<forall>s. sleep = Some s \<longrightarrow> ''Id'' \<in> set (columns s) \<and> ''date'' \<in> set (columns s))"
      with Some have k: "''Id'' \<in> set (columns s)" "''date'' \<in> set (columns s)" by simp_all
      with a have "\<exists>out. merge_left ?b ?r = Inr out" unfolding merge_left_Inr r by simp
      then obtain df1 where 1: "merge_left ?b ?r = Inr df1" by blast
      have "distinct (map row_key (rows ?r))"
        using sl Some k by (simp add: select_keys safe_cols_mem)
      from merge_left_keys(2,3) [OF 1 this] hr(1,2)
      have "\<exists>out. merge_left df1 hr = Inr out" unfolding merge_left_Inr by simp
      with 1 show "\<exists>df. build_df daily sleep hr = Inr df"
        by (simp add: build_df_def Some)
    qed
  qed
  show "map row_key (rows df) = map row_key (rows ?b)" if b: "build_df daily sleep hr = Inr df"
  proof (cases sleep)
    case None
    with b have "merge_left ?b hr = Inr df" by (simp add: build_df_def)
    from merge_left_keys(1) [OF this hr(3)] show ?thesis .
  next
    case (Some s)
    let ?r = "select s (safe_cols (Some s) [''Id'', ''date'', ''TotalMinutesAsleep''])"
    from b Some obtain df1 where 1: "merge_left ?b ?r = Inr df1" and 2: "merge_left df1 hr = Inr df"
      by (auto simp: build_df_def split: sum.splits)
    from 1 have "\<exists>out. merge_left ?b ?r = Inr out" by blast
    then have k: "''Id'' \<in> set (columns s)" "''date'' \<in> set (columns s)"
      unfolding merge_left_Inr by (simp_all add: columns_select safe_cols_mem)
    then have "distinct (map row_key (rows ?r))"
      using sl Some by (simp add: select_keys safe_cols_mem)
    from merge_left_keys(1) [OF 1 this] merge_left_keys(1) [OF 2 hr(3)]
    show ?thesis by simp
  qed
qed

lemma dedupe_columns:
  "(\<forall>d. dedupe t = Some d \<longrightarrow> c \<in> set (columns d)) \<longleftrightarrow>
   (\<forall>d. t = Some d \<longrightarrow> c \<in> set (columns d))"
proof (cases t)
  case None
  then show ?thesis by (simp add: dedupe_None)
next
  case (Some d)
  with dedupe_Some [of d] show ?thesis by auto
qed

lemma dedupe_distinct:
  "\<forall>s. dedupe t = Some s \<longrightarrow> ''Id'' \<in> set (columns s) \<longrightarrow> ''date'' \<in> set (columns s) \<longrightarrow>
       distinct (map row_key (rows s))"
proof (cases t)
  case None
  then show ?thesis by (simp add: dedupe_None)
next
  case (Some d)
  with dedupe_Some [of d] show ?thesis by auto
qed

lemma count_distinct:
  "distinct (map f ys) \<Longrightarrow>
   length (filter (\<lambda>r. f r = k) ys) = (if k \<in> set (map f ys) then 1 else 0)"
proof (cases "k \<in> set (map f ys)")
  case True
  assume "distinct (map f ys)"
  from distinct_key_once [OF this True] True show ?thesis by simp
next
  case False
  then have "filter (\<lambda>r. f r = k) ys = []" by (auto simp: filter_empty_conv)
  with False show ?thesis by simp
qed

lemma dedupe_key_set:
  assumes "\<forall>d. dedupe t = Some d \<longrightarrow> ''Id'' \<in> set (columns d) \<and> ''date'' \<in> set (columns d)"
  shows "set (case dedupe t of None \<Rightarrow> [] | Some d \<Rightarrow> map row_key (rows d)) =
         set (case t of None \<Rightarrow> [] | Some d \<Rightarrow> map row_key (rows d))"
proof (cases t)
  case None
  then show ?thesis by (simp add: dedupe_None)
next
  case (Some d)
  with assms dedupe_Some [of d] have "''Id'' \<in> set (columns d) \<and> ''date'' \<in> set (columns d)"
    by auto
  then have "dedupe (Some d) = Some (drop_duplicates (sort_values d))"
    by (simp add: dedupe_def)
  with Some show ?thesis by (simp only: option.case dedupe_keys_set)
qed

lemma build_df_sleep_no_date:
  "''date'' \<notin> set (columns s) \<Longrightarrow> build_df daily (Some s) hr = Inl KeyError"
  by (simp add: build_df_def merge_left_def columns_select safe_cols_mem)

lemma example_columns:
  "columns sleep_table = [''Id'', ''SleepDay'', ''TotalMinutesAsleep'', ''date'']"
  "columns sleep_no_day_table = [''Id'', ''TotalMinutesAsleep'']"
  "columns heart_table = [''Id'', ''Time'', ''Value'', ''date'']"
  by (simp_all add: sleep_table_def sleep_no_day_table_def heart_table_def)

lemma example_keys:
  "map row_key (rows dup_table) =
     [(Str ''2'', Ts 2016 4 12 0), (Str ''1'', Ts 2016 4 12 0), (Str ''1'', Ts 2016 4 12 0)]"
  "map row_key (rows sleep_table) = [(Str ''1'', Ts 2016 4 12 0), (Str ''3'', Ts 2016 4 13 0)]"
  by (simp_all add: dup_table_def sleep_table_def row_key_def mk_row_def)

text \<open>
  Claim C1: take the activity and sleep tables as they stand before line 90 and the
  heart-rate aggregate of lines 96 to 104. When the two joins of lines 114 to 116 return,
  the joined table has, row for row, the keys of the deduplicated activity table (none
  when the activity source was not loaded): every key of the activity table appears in
  exactly one row, and a key that the activity table does not have, be it a key of the
  sleep table or of the aggregate, appears in none.
\<close>

theorem joined_keys:
  assumes "hr_day heart = Inr hr"
    and "build_df (dedupe daily) (dedupe sleep) hr = Inr df"
  shows "map row_key (rows df) =
           (case dedupe daily of None \<Rightarrow> [] | Some d \<Rightarrow> map row_key (rows d)) \<and>
         (\<forall>k. length (filter (\<lambda>r. row_key r = k) (rows df)) =
              (if k \<in> set (case daily of None \<Rightarrow> [] | Some d \<Rightarrow> map row_key (rows d))
               then 1 else 0))"
proof -
  note hr = hr_day_keys [OF assms(1)]
  note bk = build_df_keys [OF hr dedupe_distinct [of sleep], of "dedupe daily"]
  from assms(2) have "\<exists>df. build_df (dedupe daily) (dedupe sleep) hr = Inr df" by blast
  then have k: "''Id'' \<in> set (columns (base_df (dedupe daily)))"
    "''date'' \<in> set (columns (base_df (dedupe daily)))"
    unfolding bk(1) by simp_all
  from bk(2) [OF assms(2)] base_df_props(3) [OF k]
  have m: "map row_key (rows df) =
      (case dedupe daily of None \<Rightarrow> [] | Some d \<Rightarrow> map row_key (rows d))"
    by simp
  from k have c: "\<forall>d. dedupe daily = Some d \<longrightarrow>
      ''Id'' \<in> set (columns d) \<and> ''date'' \<in> set (columns d)"
    unfolding base_df_props by simp
  with dedupe_distinct [of daily]
  have "distinct (case dedupe daily of None \<Rightarrow> [] | Some d \<Rightarrow> map row_key (rows d))"
    by (auto split: option.splits)
  with m have d: "distinct (map row_key (rows df))" by simp
  have s: "set (map row_key (rows df)) =
      set (case daily of None \<Rightarrow> [] | Some d \<Rightarrow> map row_key (rows d))"
    unfolding m by (rule dedupe_key_set [OF c])
  have "\<forall>k. length (filter (\<lambda>r. row_key r = k) (rows df)) =
      (if k \<in> set (case daily of None \<Rightarrow> [] | Some d \<Rightarrow> map row_key (rows d)) then 1 else 0)"
    using count_distinct [OF d] unfolding s by blast
  with m show ?thesis by blast
qed

theorem joined_keys_witness:
  "\<exists>hr df. hr_day (Some heart_table) = Inr hr \<and>
     build_df (dedupe (Some dup_table)) (dedupe (Some sleep_table)) hr = Inr df \<and>
     map row_key (rows df) =
       (case dedupe (Some dup_table) of None \<Rightarrow> [] | Some d \<Rightarrow> map row_key (rows d)) \<and>
     length (filter (\<lambda>r. row_key r = (Str ''1'', Ts 2016 4 12 0)) (rows df)) = 1 \<and>
     length (filter (\<lambda>r. row_key r = (Str ''3'', Ts 2016 4 13 0)) (rows df)) = 0 \<and>
     (Str ''3'', Ts 2016 4 13 0) \<in> set (map row_key (rows sleep_table))"
proof -
  have "list_all (\<lambda>r. numeric_cell (r ''Value'')) (filter has_key (rows heart_table))"
    by (simp add: heart_table_def has_key_def mk_row_def numeric_cell_def)
  then obtain hr where hr: "hr_day (Some heart_table) = Inr hr"
    by (simp add: hr_day_rows example_columns)
  have "\<exists>df. build_df (dedupe (Some dup_table)) (dedupe (Some sleep_table)) hr = Inr df"
    unfolding build_df_keys(1) [OF hr_day_keys [OF hr] dedupe_distinct]
    using dedupe_Some [of dup_table] dedupe_Some [of sleep_table]
    by (auto simp: base_df_props dup_table_columns example_columns)
  then obtain df
    where df: "build_df (dedupe (Some dup_table)) (dedupe (Some sleep_table)) hr = Inr df"
    by blast
  note t = joined_keys [OF hr df]
  from t have k: "map row_key (rows df) =
      (case dedupe (Some dup_table) of None \<Rightarrow> [] | Some d \<Rightarrow> map row_key (rows d))"
    by blast
  from t have "length (filter (\<lambda>r. row_key r = (Str ''1'', Ts 2016 4 12 0)) (rows df)) = 1"
    and "length (filter (\<lambda>r. row_key r = (Str ''3'', Ts 2016 4 13 0)) (rows df)) = 0"
    by (simp_all add: example_keys)
  moreover have "(Str ''3'', Ts 2016 4 13 0) \<in> set (map row_key (rows sleep_table))"
    by (simp add: example_keys)
  ultimately show ?thesis using hr df k by blast
qed

text \<open>
  Claim C6: the run is to complete whatever columns the loaded sources lack. It does not
  when the sleep file has no \<^verbatim>\<open>SleepDay\<close> column. The normalizer returns the table, the
  guards of lines 68 and 91 skip the parsing and the deduplication, and the table reaches
  line 115 without a \<^verbatim>\<open>date\<close> column: \<^verbatim>\<open>safe_cols\<close> drops the name from the selection, but
  the join still names it in \<^verbatim>\<open>on\<close>, and raises \<^verbatim>\<open>KeyError\<close>, whatever the other sources
  are.
\<close>

theorem missing_sleep_day_raises:
  "\<exists>s. norm_id (Some sleep_no_day_table) = Inr (Some s) \<and>
       parse_sleep (Some s) = Some s \<and> dedupe (Some s) = Some s \<and>
       (\<forall>daily hr. build_df daily (dedupe (parse_sleep (Some s))) hr = Inl KeyError)"
proof -
  let ?s = "assign sleep_no_day_table ''Id'' (map astype_str [Some 1503960366])"
  have "col sleep_no_day_table ''Id'' = [Num 1503960366]"
    by (simp add: sleep_no_day_table_def col_def mk_row_def)
  moreover have "to_numeric [Num 1503960366] = [Val 1503960366]"
    by (simp add: to_numeric_def cell_literal_def float_column_def)
  moreover have "int64_of (Val 1503960366) = Inr (Some 1503960366)"
    by (simp add: int64_of_def)
  ultimately have n: "norm_id (Some sleep_no_day_table) = Inr (Some ?s)"
    by (simp add: norm_id_def example_columns)
  have c: "columns ?s = [''Id'', ''TotalMinutesAsleep'']"
    by (simp add: assign_def example_columns)
  then have p: "parse_sleep (Some ?s) = Some ?s" and d: "dedupe (Some ?s) = Some ?s"
    by (simp_all add: parse_sleep_def dedupe_def)
  have "build_df daily (Some ?s) hr = Inl KeyError" for daily hr
    using c by (intro build_df_sleep_no_date) simp
  with n p d show ?thesis by (intro exI [of _ ?s]) simp
qed

end
